theory Spec2Isabelle
  imports Main "HOL-Library.Sublist"
begin

section \<open>Data model of \<open>business_numbers.py\<close>\<close>

text \<open>
  The argument \<open>magic_kbase_points\<close> is an arbitrary Python object. \<open>isinstance(x, int)\<close>
  holds for an \<open>int\<close> and for a \<open>bool\<close> (\<open>bool\<close> is a subclass of \<open>int\<close>, \<open>True\<close> counting
  as 1 and \<open>False\<close> as 0); \<open>PyOther\<close> stands for an object of any other class (a float, a
  string, \<open>None\<close>, ...), named by its \<open>repr\<close>.
\<close>

datatype py_value = PyInt int | PyBool bool | PyOther string

fun as_int :: "py_value \<Rightarrow> int option" where
  "as_int (PyInt n) = Some n"
| "as_int (PyBool b) = Some (if b then 1 else 0)"
| "as_int (PyOther r) = None"

text \<open>
  Exceptions as values. \<open>DatabaseOperationError\<close> carries its message and its
  \<open>__cause__\<close> (set by \<open>raise ... from e\<close>). \<open>StoreError\<close> is any other subclass of
  \<open>Exception\<close> that a collaborator raises, \<open>BaseExceptionOther\<close> an exception that is not
  an instance of \<open>Exception\<close> (\<open>KeyboardInterrupt\<close>, \<open>SystemExit\<close>), and \<open>RetryError\<close>
  is what the retry decorator raises around the last failed attempt.
\<close>

datatype exn =
    TypeError string
  | ValueError string
  | NoSuchUserError string
  | FutureTimeoutError
  | DatabaseOperationError string "exn option"
  | StoreError string
  | BaseExceptionOther string
  | RetryError exn

fun is_Exception :: "exn \<Rightarrow> bool" where
  "is_Exception (BaseExceptionOther m) = False"
| "is_Exception e = True"

text \<open>
  The object that \<open>get_user\<close> returns. The code reads and writes its attribute
  \<open>kbase_points\<close> only; \<open>user_name\<close> stands for what else identifies the account to
  the store.
\<close>

record user =
  user_name :: string
  kbase_points :: int

record 'i donation =
  username :: string
  remaining_kbase_points :: int
  update_id :: 'i

text \<open>
  The collaborator \<open>self.dbwrapper\<close> is a parameter of the code: a store with a state
  \<open>'s\<close> of its own, whose calls either return or raise, and change the state either way.
  \<open>transaction\<close> is the call \<open>transaction()\<close> with the \<open>__enter__\<close> of the context manager
  it returns; \<open>transaction_exit\<close> is its \<open>__exit__\<close>, given the exception that left the
  block (\<open>None\<close> when the block was left by \<open>return\<close>), which raises or returns whether
  the exception is suppressed.
\<close>

record ('s, 'i) dbwrapper =
  transaction :: "'s \<Rightarrow> (exn + unit) \<times> 's"
  transaction_exit :: "exn option \<Rightarrow> 's \<Rightarrow> (exn + bool) \<times> 's"
  get_user :: "string \<Rightarrow> int \<Rightarrow> 's \<Rightarrow> (exn + user option) \<times> 's"
  save_user :: "user \<Rightarrow> 's \<Rightarrow> (exn + 'i) \<times> 's"

section \<open>The donation\<close>

text \<open>
  Formatting an integer. The f-strings of line 55 and of lines 69 to 72 are evaluated
  before the log call they are the argument of, and so before the \<open>raise\<close> that follows
  it. They format the points, and the balance of the account. CPython (from 3.11, and
  the security releases of the versions before) refuses to convert to a decimal string
  an \<open>int\<close> of more than \<open>sys.int_max_str_digits\<close> digits, 4300 unless configured
  otherwise, and raises \<open>ValueError\<close> with the message below. A \<open>bool\<close> formats as \<open>True\<close>
  or \<open>False\<close>; its value, 0 or 1, is below the limit. The other f-strings of the method
  format a string, a type or an exception.
\<close>

definition int_max_str_digits :: nat where
  "int_max_str_digits = 4300"

definition str_raises :: "int \<Rightarrow> bool" where
  "str_raises n = (10 ^ int_max_str_digits \<le> \<bar>n\<bar>)"

definition int_max_str_digits_message :: string where
  "int_max_str_digits_message =
     ''Exceeds the limit (4300 digits) for integer string conversion; '' @
     ''use sys.set_int_max_str_digits() to increase the limit''"

text \<open>
  Lines 62 to 91, the block under \<open>with\<close>: fetch, not-found check, balance check with
  its log line, update and save. The fetched object is updated in the model by a copy.
\<close>

definition transaction_block ::
  "('s, 'i) dbwrapper \<Rightarrow> string \<Rightarrow> int \<Rightarrow> 's \<Rightarrow> (exn + 'i donation) \<times> 's" where
  "transaction_block db uname pts s =
     (case get_user db uname 2 s of
        (Inl e, s1) \<Rightarrow> (Inl e, s1)
      | (Inr None, s1) \<Rightarrow> (Inl (NoSuchUserError uname), s1)
      | (Inr (Some usr), s1) \<Rightarrow>
          if kbase_points usr < pts
          then
            (if str_raises (kbase_points usr) \<or> str_raises pts
             then (Inl (ValueError int_max_str_digits_message), s1)
             else (Inl (ValueError ''Insufficient KBase points.''), s1))
          else
            (let usr' = usr\<lparr>kbase_points := kbase_points usr - pts\<rparr> in
             case save_user db usr' s1 of
               (Inl e, s2) \<Rightarrow> (Inl e, s2)
             | (Inr uid, s2) \<Rightarrow>
                 (Inr \<lparr>username = uname,
                       remaining_kbase_points = kbase_points usr',
                       update_id = uid\<rparr>, s2)))"

text \<open>
  The \<open>with\<close> statement of line 60. A block left by \<open>return\<close> returns its value unless
  \<open>__exit__\<close> raises; a block left by an exception raises what \<open>__exit__\<close> raises, or the
  exception itself, or, when \<open>__exit__\<close> suppresses it, falls through to the end of the
  function, which then returns \<open>None\<close>.
\<close>

definition with_transaction ::
  "('s, 'i) dbwrapper \<Rightarrow> ('s \<Rightarrow> (exn + 'a) \<times> 's) \<Rightarrow> 's \<Rightarrow> (exn + 'a option) \<times> 's" where
  "with_transaction db block s =
     (case transaction db s of
        (Inl e, s1) \<Rightarrow> (Inl e, s1)
      | (Inr u, s1) \<Rightarrow>
          (case block s1 of
             (Inr r, s2) \<Rightarrow>
               (case transaction_exit db None s2 of
                  (Inl e', s3) \<Rightarrow> (Inl e', s3)
                | (Inr b, s3) \<Rightarrow> (Inr (Some r), s3))
           | (Inl e, s2) \<Rightarrow>
               (case transaction_exit db (Some e) s2 of
                  (Inl e', s3) \<Rightarrow> (Inl e', s3)
                | (Inr b, s3) \<Rightarrow> if b then (Inr None, s3) else (Inl e, s3))))"

text \<open>The three \<open>except\<close> clauses of lines 93 to 100, in their order.\<close>

fun except_clauses :: "exn \<Rightarrow> exn" where
  "except_clauses (NoSuchUserError u) = NoSuchUserError u"
| "except_clauses (ValueError m) = ValueError m"
| "except_clauses e =
     (if is_Exception e
      then DatabaseOperationError ''Failed to process donation after retries.'' (Some e)
      else e)"

text \<open>The function under the decorator: one attempt.\<close>

definition donate_attempt ::
  "('s, 'i) dbwrapper \<Rightarrow> string \<Rightarrow> py_value \<Rightarrow> 's \<Rightarrow> (exn + 'i donation option) \<times> 's" where
  "donate_attempt db uname magic_kbase_points s =
     (case as_int magic_kbase_points of
        None \<Rightarrow> (Inl (TypeError ''Donation points must be an integer.''), s)
      | Some pts \<Rightarrow>
          if pts \<le> 0
          then
            (if str_raises pts
             then (Inl (ValueError int_max_str_digits_message), s)
             else (Inl (ValueError ''Donation points must be a positive integer.''), s))
          else
            (case with_transaction db (transaction_block db uname pts) s of
               (Inl e, s') \<Rightarrow> (Inl (except_clauses e), s')
             | (Inr r, s') \<Rightarrow> (Inr r, s')))"

section \<open>The retry decorator\<close>

text \<open>
  \<open>@retry(stop=stop_after_attempt(3), wait=wait_fixed(1), retry=retry_if_exception_type(
  (FutureTimeoutError, DatabaseOperationError)))\<close> of the tenacity library, without
  \<open>reraise\<close>: the function is called; a result is returned; an exception that is not an
  instance of the two classes is raised as it is; otherwise, when the attempt number has
  reached the stop, \<open>RetryError\<close> is raised around the last attempt, and else the
  attempt number grows by one and the function is called again, after the wait. The
  model returns the attempt number with the outcome (the library's
  \<open>statistics["attempt_number"]\<close>); the wait changes no value and is left out.
\<close>

fun retry_if_exception_type :: "exn \<Rightarrow> bool" where
  "retry_if_exception_type FutureTimeoutError = True"
| "retry_if_exception_type (DatabaseOperationError m c) = True"
| "retry_if_exception_type e = False"

function retry ::
  "nat \<Rightarrow> (exn \<Rightarrow> bool) \<Rightarrow> ('s \<Rightarrow> (exn + 'a) \<times> 's) \<Rightarrow> nat \<Rightarrow> 's \<Rightarrow> (exn + 'a) \<times> nat \<times> 's" where
  "retry stop_after_attempt retry_if fn attempt_number s =
     (case fn s of
        (Inr r, s') \<Rightarrow> (Inr r, attempt_number, s')
      | (Inl e, s') \<Rightarrow>
          if \<not> retry_if e then (Inl e, attempt_number, s')
          else if attempt_number \<ge> stop_after_attempt
          then (Inl (RetryError e), attempt_number, s')
          else retry stop_after_attempt retry_if fn (attempt_number + 1) s')"
  by pat_completeness auto
termination
  by (relation "measure (\<lambda>(n, p, f, k, s). n - k)") auto

text \<open>The decorated method, as its callers see it.\<close>

definition donate_kbase_points ::
  "('s, 'i) dbwrapper \<Rightarrow> string \<Rightarrow> py_value \<Rightarrow> 's \<Rightarrow> (exn + 'i donation option) \<times> nat \<times> 's" where
  "donate_kbase_points db uname magic_kbase_points s =
     retry 3 retry_if_exception_type (donate_attempt db uname magic_kbase_points) 1 s"

section \<open>A reference store\<close>

text \<open>
  Modelled from the spec: the store behind \<open>dbwrapper\<close> is an external collaborator with
  no code in the repository. Section 6 of the spec gives its contract: \<open>transaction()\<close>
  is a scoped acquisition that commits on success and rolls back on exit with an error,
  \<open>get(username, timeout)\<close> returns the account or absent, \<open>save(Account)\<close> returns an
  update identifier assigned per write. The store below keeps the accounts in a map,
  numbers its writes, raises the pending failures of its environment (a fetch that
  exceeds its timeout, a lost connection) one per fetch, and records every call it
  receives.
\<close>

datatype store_call =
    Call_transaction
  | Call_get_user string int
  | Call_save_user user
  | Call_exit "exn option"

record memory_store =
  accounts :: "string \<rightharpoonup> user"
  snapshot :: "(string \<rightharpoonup> user) option"
  next_id :: nat
  pending :: "exn list"
  calls :: "store_call list"

definition memory_transaction :: "memory_store \<Rightarrow> (exn + unit) \<times> memory_store" where
  "memory_transaction st =
     (Inr (), st\<lparr>snapshot := Some (accounts st), calls := calls st @ [Call_transaction]\<rparr>)"

definition memory_exit :: "exn option \<Rightarrow> memory_store \<Rightarrow> (exn + bool) \<times> memory_store" where
  "memory_exit exc st =
     (Inr False,
      st\<lparr>accounts :=
           (case (exc, snapshot st) of (Some e, Some a) \<Rightarrow> a | _ \<Rightarrow> accounts st),
         snapshot := None,
         calls := calls st @ [Call_exit exc]\<rparr>)"

definition memory_get_user ::
  "string \<Rightarrow> int \<Rightarrow> memory_store \<Rightarrow> (exn + user option) \<times> memory_store" where
  "memory_get_user uname timeout st =
     (case pending st of
        e # es \<Rightarrow>
          (Inl e, st\<lparr>pending := es, calls := calls st @ [Call_get_user uname timeout]\<rparr>)
      | [] \<Rightarrow>
          (Inr (accounts st uname), st\<lparr>calls := calls st @ [Call_get_user uname timeout]\<rparr>))"

definition memory_save_user :: "user \<Rightarrow> memory_store \<Rightarrow> (exn + nat) \<times> memory_store" where
  "memory_save_user usr st =
     (Inr (next_id st),
      st\<lparr>accounts := (accounts st)(user_name usr \<mapsto> usr),
         next_id := next_id st + 1,
         calls := calls st @ [Call_save_user usr]\<rparr>)"

definition memory_db :: "(memory_store, nat) dbwrapper" where
  "memory_db =
     \<lparr>transaction = memory_transaction,
      transaction_exit = memory_exit,
      get_user = memory_get_user,
      save_user = memory_save_user\<rparr>"

text \<open>A store holding one account of \<open>alice\<close>, outside any transaction, with no call yet.\<close>

definition alice_store :: "int \<Rightarrow> exn list \<Rightarrow> memory_store" where
  "alice_store b faults =
     \<lparr>accounts = [''alice'' \<mapsto> \<lparr>user_name = ''alice'', kbase_points = b\<rparr>],
      snapshot = None,
      next_id = 7,
      pending = faults,
      calls = []\<rparr>"

section \<open>Facts about the retry loop and one attempt\<close>

lemma retry_returns:
  "fn s = (Inr r, s') \<Longrightarrow> retry n p fn k s = (Inr r, k, s')"
  by simp

lemma retry_raises:
  "fn s = (Inl e, s') \<Longrightarrow> \<not> p e \<Longrightarrow> retry n p fn k s = (Inl e, k, s')"
  by simp

lemma retry_again:
  "fn s = (Inl e, s') \<Longrightarrow> p e \<Longrightarrow> k < n \<Longrightarrow> retry n p fn k s = retry n p fn (Suc k) s'"
  by simp

lemma retry_exhausted:
  "fn s = (Inl e, s') \<Longrightarrow> p e \<Longrightarrow> n \<le> k \<Longrightarrow> retry n p fn k s = (Inl (RetryError e), k, s')"
  by simp

declare retry.simps [simp del]

lemma donate_attempt_not_int:
  "as_int v = None \<Longrightarrow>
   donate_attempt db uname v s = (Inl (TypeError ''Donation points must be an integer.''), s)"
  by (simp add: donate_attempt_def)

lemma int_max_str_digits_le: "(10::int) ^ 3 \<le> 10 ^ int_max_str_digits"
  by (rule power_increasing) (simp_all add: int_max_str_digits_def)

lemma str_raises_small: "\<bar>n\<bar> < 1000 \<Longrightarrow> \<not> str_raises n"
  using int_max_str_digits_le by (simp add: str_raises_def)

lemma str_raises_zero: "\<not> str_raises 0"
  by (rule str_raises_small) simp


lemma str_raises_neg_limit: "str_raises (- (10 ^ 4300))"
  by (simp add: str_raises_def int_max_str_digits_def del: power_numeral)


lemma donate_attempt_not_positive:
  "as_int v = Some pts \<Longrightarrow> pts \<le> 0 \<Longrightarrow>
   donate_attempt db uname v s =
     (Inl (ValueError
        (if str_raises pts then int_max_str_digits_message
         else ''Donation points must be a positive integer.'')), s)"
  by (simp add: donate_attempt_def)

lemma retry_Inr_from_attempt:
  "retry n p fn k s = (Inr r, m, s') \<Longrightarrow> \<exists>s0. fn s0 = (Inr r, s')"
proof (induction n p fn k s rule: retry.induct)
  case (1 n p fn k s)
  obtain out s1 where f: "fn s = (out, s1)" by (cases "fn s")
  show ?case
  proof (cases out)
    case (Inr r')
    with f "1.prems" show ?thesis by (auto simp: retry.simps [of n p fn k s])
  next
    case (Inl e)
    show ?thesis
    proof (cases "p e \<and> k < n")
      case True
      with f Inl "1.prems" have "retry n p fn (k + 1) s1 = (Inr r, m, s')"
        by (simp add: retry.simps [of n p fn k s])
      with "1.IH" [OF f [symmetric] Inl] True show ?thesis by simp
    next
      case False
      with f Inl "1.prems" show ?thesis
        by (auto simp: retry.simps [of n p fn k s] split: if_splits)
    qed
  qed
qed

lemma retry_Inl_cases:
  "retry n p fn k s = (Inl e, m, s') \<Longrightarrow>
   (\<exists>s0. fn s0 = (Inl e, s') \<and> \<not> p e) \<or> (\<exists>e' s0. e = RetryError e' \<and> fn s0 = (Inl e', s') \<and> p e')"
proof (induction n p fn k s rule: retry.induct)
  case (1 n p fn k s)
  obtain out s1 where f: "fn s = (out, s1)" by (cases "fn s")
  show ?case
  proof (cases out)
    case (Inr r')
    with f "1.prems" show ?thesis by (auto simp: retry.simps [of n p fn k s])
  next
    case (Inl e0)
    show ?thesis
    proof (cases "p e0 \<and> k < n")
      case True
      with f Inl "1.prems" have "retry n p fn (k + 1) s1 = (Inl e, m, s')"
        by (simp add: retry.simps [of n p fn k s])
      with "1.IH" [OF f [symmetric] Inl] True show ?thesis by simp
    next
      case False
      with f Inl "1.prems" show ?thesis
        by (auto simp: retry.simps [of n p fn k s] split: if_splits)
    qed
  qed
qed

lemma retry_attempt_bounds:
  "retry n p fn k s = (out, m, s') \<Longrightarrow> k \<le> m \<and> m \<le> max k n"
proof (induction n p fn k s rule: retry.induct)
  case (1 n p fn k s)
  obtain o1 s1 where f: "fn s = (o1, s1)" by (cases "fn s")
  show ?case
  proof (cases o1)
    case (Inr r')
    with f "1.prems" show ?thesis by (auto simp: retry.simps [of n p fn k s])
  next
    case (Inl e0)
    show ?thesis
    proof (cases "p e0 \<and> k < n")
      case True
      with f Inl "1.prems" have "retry n p fn (k + 1) s1 = (out, m, s')"
        by (simp add: retry.simps [of n p fn k s])
      with "1.IH" [OF f [symmetric] Inl] True show ?thesis by auto
    next
      case False
      with f Inl "1.prems" show ?thesis
        by (auto simp: retry.simps [of n p fn k s] split: if_splits)
    qed
  qed
qed

lemma except_clauses_not_TypeError: "except_clauses e \<noteq> TypeError m"
  by (cases e) auto

lemma donate_attempt_valid:
  "as_int v = Some pts \<Longrightarrow> 0 < pts \<Longrightarrow>
   donate_attempt db uname v s =
     (case with_transaction db (transaction_block db uname pts) s of
        (Inl e, s') \<Rightarrow> (Inl (except_clauses e), s')
      | (Inr r, s') \<Rightarrow> (Inr r, s'))"
  by (simp add: donate_attempt_def)

lemma with_transaction_raises:
  "transaction db s = (Inr u, s1) \<Longrightarrow> block s1 = (Inl e, s2) \<Longrightarrow>
   transaction_exit db (Some e) s2 = (Inr False, s3) \<Longrightarrow>
   with_transaction db block s = (Inl e, s3)"
  by (simp add: with_transaction_def)

lemma with_transaction_returns:
  "transaction db s = (Inr u, s1) \<Longrightarrow> block s1 = (Inr r, s2) \<Longrightarrow>
   transaction_exit db None s2 = (Inr b, s3) \<Longrightarrow>
   with_transaction db block s = (Inr (Some r), s3)"
  by (simp add: with_transaction_def)


lemma transaction_block_returns:
  "get_user db uname 2 s1 = (Inr (Some usr), s2) \<Longrightarrow> pts \<le> kbase_points usr \<Longrightarrow>
   save_user db (usr\<lparr>kbase_points := kbase_points usr - pts\<rparr>) s2 = (Inr uid, s3) \<Longrightarrow>
   transaction_block db uname pts s1 =
     (Inr \<lparr>username = uname, remaining_kbase_points = kbase_points usr - pts,
           update_id = uid\<rparr>, s3)"
  by (simp add: transaction_block_def)

lemma donate_attempt_returns_cases:
  assumes "donate_attempt db uname v s = (Inr (Some r), s')"
  shows "\<exists>pts s1 usr s2 uid s3 b.
           as_int v = Some pts \<and> 0 < pts \<and>
           transaction db s = (Inr (), s1) \<and>
           get_user db uname 2 s1 = (Inr (Some usr), s2) \<and>
           pts \<le> kbase_points usr \<and>
           save_user db (usr\<lparr>kbase_points := kbase_points usr - pts\<rparr>) s2 = (Inr uid, s3) \<and>
           transaction_exit db None s3 = (Inr b, s') \<and>
           r = \<lparr>username = uname, remaining_kbase_points = kbase_points usr - pts,
                update_id = uid\<rparr>"
proof -
  from assms obtain pts where v: "as_int v = Some pts" and pos: "0 < pts"
    and w: "with_transaction db (transaction_block db uname pts) s = (Inr (Some r), s')"
    by (auto simp: donate_attempt_def split: option.splits if_splits prod.splits sum.splits)
  from w obtain s1 s2 b where t: "transaction db s = (Inr (), s1)"
    and blk: "transaction_block db uname pts s1 = (Inr r, s2)"
    and ex: "transaction_exit db None s2 = (Inr b, s')"
    by (auto simp: with_transaction_def split: prod.splits sum.splits if_splits)
  from blk obtain usr s2' uid where g: "get_user db uname 2 s1 = (Inr (Some usr), s2')"
    and le: "pts \<le> kbase_points usr"
    and sv: "save_user db (usr\<lparr>kbase_points := kbase_points usr - pts\<rparr>) s2' = (Inr uid, s2)"
    and r: "r = \<lparr>username = uname, remaining_kbase_points = kbase_points usr - pts,
                update_id = uid\<rparr>"
    by (auto simp: transaction_block_def Let_def
        split: prod.splits sum.splits option.splits if_splits)
  from v pos t g le sv ex r show ?thesis by blast
qed

lemmas memory_defs =
  memory_db_def memory_transaction_def memory_get_user_def memory_exit_def
  memory_save_user_def alice_store_def

lemma donate_attempt_bool:
  "donate_attempt db uname (PyBool True) s = donate_attempt db uname (PyInt 1) s"
  by (simp add: donate_attempt_def)

lemma donate_first_attempt_returns:
  "donate_attempt db uname v s = (Inr r, s') \<Longrightarrow>
   donate_kbase_points db uname v s = (Inr r, 1, s')"
  unfolding donate_kbase_points_def by (rule retry_returns)

lemma donate_attempt_not_TypeError:
  assumes "as_int v = Some pts"
  shows "donate_attempt db uname v s \<noteq> (Inl (TypeError m), s')"
proof (cases "pts \<le> 0")
  case True
  with assms show ?thesis by (simp add: donate_attempt_not_positive)
next
  case False
  with assms show ?thesis
    by (auto simp: donate_attempt_valid except_clauses_not_TypeError
        split: prod.splits sum.splits)
qed

lemma donate_attempt_wraps:
  assumes "as_int v = Some pts" and "0 < pts"
    and "with_transaction db (transaction_block db uname pts) s = (Inl e, s')"
    and "e = FutureTimeoutError \<or> (\<exists>m. e = StoreError m)"
  shows "donate_attempt db uname v s =
           (Inl (DatabaseOperationError ''Failed to process donation after retries.''
              (Some e)), s')"
  using assms by (auto simp: donate_attempt_valid)

lemma donate_attempt_returns:
  assumes "as_int v = Some pts" and "0 < pts"
    and "transaction db s = (Inr (), s1)"
    and "get_user db uname 2 s1 = (Inr (Some usr), s2)"
    and "pts \<le> kbase_points usr"
    and "save_user db (usr\<lparr>kbase_points := kbase_points usr - pts\<rparr>) s2 = (Inr uid, s3)"
    and "transaction_exit db None s3 = (Inr b, s4)"
  shows "donate_attempt db uname v s =
           (Inr (Some \<lparr>username = uname,
                       remaining_kbase_points = kbase_points usr - pts,
                       update_id = uid\<rparr>), s4)"
proof -
  have "transaction_block db uname pts s1 =
      (Inr \<lparr>username = uname, remaining_kbase_points = kbase_points usr - pts,
            update_id = uid\<rparr>, s3)"
    using assms(4,5,6) by (rule transaction_block_returns)
  then have "with_transaction db (transaction_block db uname pts) s =
      (Inr (Some \<lparr>username = uname, remaining_kbase_points = kbase_points usr - pts,
                  update_id = uid\<rparr>), s4)"
    using assms(3,7) by (intro with_transaction_returns [where ?s1.0 = s1 and ?s2.0 = s3]) simp_all
  then show ?thesis
    using assms(1,2) by (simp add: donate_attempt_valid)
qed

lemma three_is_Suc: "Suc (Suc 1) = 3"
  by simp

lemma memory_donate_returns:
  assumes "as_int v = Some pts" and "0 < pts"
    and "accounts st uname = Some usr" and "pending st = []"
    and "pts \<le> kbase_points usr"
  shows "donate_kbase_points memory_db uname v st =
           (Inr (Some \<lparr>username = uname,
                       remaining_kbase_points = kbase_points usr - pts,
                       update_id = next_id st\<rparr>), 1,
            st\<lparr>accounts :=
                 (accounts st)(user_name usr \<mapsto> usr\<lparr>kbase_points := kbase_points usr - pts\<rparr>),
               snapshot := None,
               next_id := next_id st + 1,
               calls := calls st @
                 [Call_transaction, Call_get_user uname 2,
                  Call_save_user (usr\<lparr>kbase_points := kbase_points usr - pts\<rparr>),
                  Call_exit None]\<rparr>)"
proof -
  have "donate_attempt memory_db uname v st =
      (Inr (Some \<lparr>username = uname, remaining_kbase_points = kbase_points usr - pts,
                  update_id = next_id st\<rparr>),
       st\<lparr>accounts :=
            (accounts st)(user_name usr \<mapsto> usr\<lparr>kbase_points := kbase_points usr - pts\<rparr>),
          snapshot := None,
          next_id := next_id st + 1,
          calls := calls st @
            [Call_transaction, Call_get_user uname 2,
             Call_save_user (usr\<lparr>kbase_points := kbase_points usr - pts\<rparr>),
             Call_exit None]\<rparr>)"
    using assms
    by (simp add: donate_attempt_valid with_transaction_def transaction_block_def Let_def
        memory_db_def memory_transaction_def memory_get_user_def memory_exit_def
        memory_save_user_def)
  then show ?thesis by (rule donate_first_attempt_returns)
qed


lemma memory_donate_no_such_user:
  assumes "as_int v = Some pts" and "0 < pts"
    and "accounts st uname = None" and "pending st = []"
  shows "donate_kbase_points memory_db uname v st =
           (Inl (NoSuchUserError uname), 1,
            st\<lparr>snapshot := None,
               calls := calls st @
                 [Call_transaction, Call_get_user uname 2,
                  Call_exit (Some (NoSuchUserError uname))]\<rparr>)"
proof -
  have "donate_attempt memory_db uname v st =
      (Inl (NoSuchUserError uname),
       st\<lparr>snapshot := None,
          calls := calls st @
            [Call_transaction, Call_get_user uname 2,
             Call_exit (Some (NoSuchUserError uname))]\<rparr>)"
    using assms
    by (simp add: donate_attempt_valid with_transaction_def transaction_block_def Let_def
        memory_db_def memory_transaction_def memory_get_user_def memory_exit_def
        memory_save_user_def)
  then show ?thesis
    unfolding donate_kbase_points_def by (rule retry_raises) simp
qed

lemma memory_donate_twice:
  assumes "as_int v = Some pts" and "0 < pts" and "2 * pts \<le> kbase_points usr"
    and "accounts st uname = Some usr" and "user_name usr = uname" and "pending st = []"
  shows "accounts (snd (snd (donate_kbase_points memory_db uname v
            (snd (snd (donate_kbase_points memory_db uname v st)))))) uname =
           Some (usr\<lparr>kbase_points := kbase_points usr - 2 * pts\<rparr>)"
proof -
  let ?usr = "usr\<lparr>kbase_points := kbase_points usr - pts\<rparr>"
  let ?st1 = "snd (snd (donate_kbase_points memory_db uname v st))"
  from assms(2,3) have le1: "pts \<le> kbase_points usr" by simp
  from assms(3) have le2: "pts \<le> kbase_points ?usr" by simp
  have st1: "accounts ?st1 uname = Some ?usr" "pending ?st1 = []"
    using assms(5,6) by (simp_all add: memory_donate_returns [OF assms(1,2,4,6) le1])
  have "accounts (snd (snd (donate_kbase_points memory_db uname v ?st1))) uname =
      Some (?usr\<lparr>kbase_points := kbase_points ?usr - pts\<rparr>)"
    using assms(5) by (simp add: memory_donate_returns [OF assms(1,2) st1 le2])
  then show ?thesis by (simp add: algebra_simps)
qed

lemma donate_third_attempt_returns:
  assumes "donate_attempt db uname v s0 = (Inl e1, s1)" and "retry_if_exception_type e1"
    and "donate_attempt db uname v s1 = (Inl e2, s2)" and "retry_if_exception_type e2"
    and "donate_attempt db uname v s2 = (Inr r, s3)"
  shows "donate_kbase_points db uname v s0 = (Inr r, 3, s3)"
proof -
  let ?fn = "donate_attempt db uname v"
  have "retry 3 retry_if_exception_type ?fn 1 s0 =
      retry 3 retry_if_exception_type ?fn (Suc 1) s1"
    using assms(1,2) by (rule retry_again) simp
  also have "\<dots> = retry 3 retry_if_exception_type ?fn (Suc (Suc 1)) s2"
    using assms(3,4) by (rule retry_again) simp
  also have "\<dots> = (Inr r, Suc (Suc 1), s3)"
    using assms(5) by (rule retry_returns)
  finally show ?thesis
    by (simp only: donate_kbase_points_def three_is_Suc)
qed

lemma memory_with_transaction_fault:
  "pending st = e # es \<Longrightarrow>
   with_transaction memory_db (transaction_block memory_db uname pts) st =
     (Inl e,
      st\<lparr>snapshot := None, pending := es,
         calls := calls st @
           [Call_transaction, Call_get_user uname 2, Call_exit (Some e)]\<rparr>)"
  by (simp add: with_transaction_def transaction_block_def memory_db_def
      memory_transaction_def memory_get_user_def memory_exit_def)

lemma memory_donate_two_timeouts:
  assumes "as_int v = Some pts" and "0 < pts"
    and "accounts st uname = Some usr" and "pts \<le> kbase_points usr"
    and "pending st = [FutureTimeoutError, FutureTimeoutError]"
  shows "fst (donate_kbase_points memory_db uname v st) =
           fst (donate_kbase_points memory_db uname v (st\<lparr>pending := []\<rparr>)) \<and>
         fst (snd (donate_kbase_points memory_db uname v st)) = 3"
proof -
  let ?e = "DatabaseOperationError ''Failed to process donation after retries.''
      (Some FutureTimeoutError)"
  let ?c = "[Call_transaction, Call_get_user uname 2, Call_exit (Some FutureTimeoutError)]"
  let ?s1 = "st\<lparr>snapshot := None, pending := [FutureTimeoutError], calls := calls st @ ?c\<rparr>"
  let ?s2 = "st\<lparr>snapshot := None, pending := [], calls := calls st @ ?c @ ?c\<rparr>"
  let ?r = "Some \<lparr>username = uname, remaining_kbase_points = kbase_points usr - pts,
      update_id = next_id st\<rparr>"
  have a1: "donate_attempt memory_db uname v st = (Inl ?e, ?s1)"
    using assms(1,2,5) by (simp add: donate_attempt_valid memory_with_transaction_fault)
  have a2: "donate_attempt memory_db uname v ?s1 = (Inl ?e, ?s2)"
    using assms(1,2) by (simp add: donate_attempt_valid memory_with_transaction_fault)
  have "donate_kbase_points memory_db uname v ?s2 =
      (Inr ?r, 1, snd (snd (donate_kbase_points memory_db uname v ?s2)))"
    using assms(1,2,3,4) by (simp add: memory_donate_returns)
  then have a3: "donate_attempt memory_db uname v ?s2 =
      (Inr ?r, snd (donate_attempt memory_db uname v ?s2))"
    using assms(1,2,3,4)
    by (simp add: donate_attempt_valid with_transaction_def transaction_block_def Let_def
        memory_db_def memory_transaction_def memory_get_user_def memory_exit_def
        memory_save_user_def)
  have "donate_kbase_points memory_db uname v st =
      (Inr ?r, 3, snd (donate_attempt memory_db uname v ?s2))"
    using a1 _ a2 _ a3 by (rule donate_third_attempt_returns) simp_all
  moreover have "fst (donate_kbase_points memory_db uname v (st\<lparr>pending := []\<rparr>)) = Inr ?r"
    using assms(1,2,3,4) by (simp add: memory_donate_returns)
  ultimately show ?thesis by simp
qed

lemma retry_Inr_from_attempt_inv:
  "retry n p fn k s = (Inr r, m, s') \<Longrightarrow> P s \<Longrightarrow>
   (\<And>t e t'. P t \<Longrightarrow> fn t = (Inl e, t') \<Longrightarrow> P t') \<Longrightarrow>
   \<exists>s0. P s0 \<and> fn s0 = (Inr r, s')"
proof (induction n p fn k s rule: retry.induct)
  case (1 n p fn k s)
  obtain out s1 where f: "fn s = (out, s1)" by (cases "fn s")
  show ?case
  proof (cases out)
    case (Inr r')
    with f "1.prems"(1,2) show ?thesis by (auto simp: retry.simps [of n p fn k s])
  next
    case (Inl e)
    show ?thesis
    proof (cases "p e \<and> k < n")
      case True
      with f Inl "1.prems"(1) have again: "retry n p fn (k + 1) s1 = (Inr r, m, s')"
        by (simp add: retry.simps [of n p fn k s])
      have "fn s = (Inl e, s1)" using f Inl by simp
      with "1.prems"(2) have "P s1" by (rule "1.prems"(3))
      with again True show ?thesis
        by (intro "1.IH" [OF f [symmetric] Inl]) (simp_all add: "1.prems"(3))
    next
      case False
      with f Inl "1.prems"(1) show ?thesis
        by (auto simp: retry.simps [of n p fn k s] split: if_splits)
    qed
  qed
qed

lemma retry_preserves:
  "retry n p fn k s = (out, m, s') \<Longrightarrow> P s \<Longrightarrow>
   (\<And>t out t'. P t \<Longrightarrow> fn t = (out, t') \<Longrightarrow> P t') \<Longrightarrow> P s'"
proof (induction n p fn k s rule: retry.induct)
  case (1 n p fn k s)
  obtain o1 s1 where f: "fn s = (o1, s1)" by (cases "fn s")
  from "1.prems"(2) f have P1: "P s1" by (rule "1.prems"(3))
  show ?case
  proof (cases o1)
    case (Inr r')
    with f "1.prems"(1) P1 show ?thesis by (auto simp: retry.simps [of n p fn k s])
  next
    case (Inl e)
    show ?thesis
    proof (cases "p e \<and> k < n")
      case True
      with f Inl "1.prems"(1) have again: "retry n p fn (k + 1) s1 = (out, m, s')"
        by (simp add: retry.simps [of n p fn k s])
      with True P1 show ?thesis
        by (intro "1.IH" [OF f [symmetric] Inl]) (simp_all add: "1.prems"(3))
    next
      case False
      with f Inl "1.prems"(1) P1 show ?thesis
        by (auto simp: retry.simps [of n p fn k s] split: if_splits)
    qed
  qed
qed

lemmas memory_attempt_defs =
  donate_attempt_def with_transaction_def transaction_block_def Let_def memory_db_def
  memory_transaction_def memory_get_user_def memory_exit_def memory_save_user_def

lemma memory_attempt_raises_accounts:
  "donate_attempt memory_db uname v st = (Inl e, st') \<Longrightarrow> accounts st' = accounts st"
  by (auto simp: memory_attempt_defs split: option.splits if_splits list.splits)

lemma memory_attempt_returns_stored:
  "donate_attempt memory_db uname v st = (Inr (Some d), st') \<Longrightarrow>
   accounts st uname = Some acct \<Longrightarrow> user_name acct = uname \<Longrightarrow>
   0 \<le> remaining_kbase_points d \<and>
   accounts st' uname = Some (acct\<lparr>kbase_points := remaining_kbase_points d\<rparr>)"
  by (auto simp: memory_attempt_defs split: option.splits if_splits list.splits)

lemma memory_attempt_nonnegative:
  "donate_attempt memory_db uname v st = (out, st') \<Longrightarrow>
   \<forall>u a. accounts st u = Some a \<longrightarrow> 0 \<le> kbase_points a \<Longrightarrow>
   \<forall>u a. accounts st' u = Some a \<longrightarrow> 0 \<le> kbase_points a"
  by (auto simp: memory_attempt_defs split: option.splits if_splits list.splits)

lemma memory_donate_returns_stored:
  assumes "donate_kbase_points memory_db uname v st = (Inr (Some d), k, st')"
    and "accounts st uname = Some acct" and "user_name acct = uname"
  shows "0 \<le> remaining_kbase_points d \<and>
         accounts st' uname = Some (acct\<lparr>kbase_points := remaining_kbase_points d\<rparr>)"
proof -
  from assms(1) have "\<exists>t. accounts t = accounts st \<and>
      donate_attempt memory_db uname v t = (Inr (Some d), st')"
    unfolding donate_kbase_points_def
    by (rule retry_Inr_from_attempt_inv) (simp_all add: memory_attempt_raises_accounts)
  then obtain t where "accounts t = accounts st"
    and "donate_attempt memory_db uname v t = (Inr (Some d), st')"
    by blast
  with assms(2,3) show ?thesis
    by (intro memory_attempt_returns_stored [where st = t]) simp_all
qed

lemma memory_donate_nonnegative:
  assumes "\<forall>u a. accounts st u = Some a \<longrightarrow> 0 \<le> kbase_points a"
  shows "\<forall>u a. accounts (snd (snd (donate_kbase_points memory_db uname v st))) u = Some a \<longrightarrow>
           0 \<le> kbase_points a"
proof -
  obtain out k st' where d: "donate_kbase_points memory_db uname v st = (out, k, st')"
    by (cases "donate_kbase_points memory_db uname v st")
  let ?P = "\<lambda>t. \<forall>u a. accounts t u = Some a \<longrightarrow> 0 \<le> kbase_points a"
  from d have "?P st'"
    unfolding donate_kbase_points_def
  proof (rule retry_preserves [where P = ?P])
    show "?P st" by (rule assms)
  next
    fix t out t'
    assume "?P t" and "donate_attempt memory_db uname v t = (out, t')"
    then show "?P t'" by (rule memory_attempt_nonnegative [rotated])
  qed
  with d show ?thesis by simp
qed

section \<open>Validation of the points\<close>

text \<open>
  Claim C3. When \<open>magic_kbase_points\<close> is not an instance of \<open>int\<close>, the call raises the
  \<open>TypeError\<close> of line 53 on its first attempt, whatever the store is, and the store is
  left in the state it was in: none of its four calls is made.
\<close>

theorem donate_not_int_type_error:
  "donate_kbase_points db uname (PyOther r) s =
     (Inl (TypeError ''Donation points must be an integer.''), 1, s)"
  unfolding donate_kbase_points_def
  by (rule retry_raises) (simp_all add: donate_attempt_not_int)

theorem donate_not_int_type_error_witness:
  "donate_kbase_points memory_db ''alice'' (PyOther ''2.5'') (alice_store 100 []) =
     (Inl (TypeError ''Donation points must be an integer.''), 1, alice_store 100 []) \<and>
   calls (alice_store 100 []) = []"
  using donate_not_int_type_error [of memory_db "''alice''" "''2.5''" "alice_store 100 []"]
  by (simp add: alice_store_def)

text \<open>
  Claim C4. When \<open>magic_kbase_points\<close> is an integer that is zero or negative, the call
  raises a \<open>ValueError\<close> on its first attempt, whatever the store is, and the store is
  left in the state it was in. The message is that of line 56, unless the points have
  more than 4300 digits: then the log line of line 55 raises first, with the message of
  the conversion.
\<close>

theorem donate_not_positive_value_error:
  "pts \<le> 0 \<Longrightarrow>
   donate_kbase_points db uname (PyInt pts) s =
     (Inl (ValueError
        (if str_raises pts then int_max_str_digits_message
         else ''Donation points must be a positive integer.'')), 1, s)"
  unfolding donate_kbase_points_def
  by (rule retry_raises) (simp_all add: donate_attempt_not_positive)

theorem donate_not_positive_value_error_witness:
  "(-5 :: int) \<le> 0 \<and>
   donate_kbase_points memory_db ''alice'' (PyInt (-5)) (alice_store 100 []) =
     (Inl (ValueError ''Donation points must be a positive integer.''), 1,
      alice_store 100 []) \<and>
   donate_kbase_points memory_db ''alice'' (PyInt (- (10 ^ 4300))) (alice_store 100 []) =
     (Inl (ValueError int_max_str_digits_message), 1, alice_store 100 []) \<and>
   calls (alice_store 100 []) = []"
proof -
  have small: "\<not> str_raises (- 5)"
    by (rule str_raises_small) simp
  have neg: "- ((10::int) ^ 4300) \<le> 0"
    by (simp del: power_numeral)
  show ?thesis
    using donate_not_positive_value_error [of "-5" memory_db "''alice''" "alice_store 100 []"]
      donate_not_positive_value_error [OF neg, of memory_db "''alice''" "alice_store 100 []"]
      small str_raises_neg_limit
    by (simp add: alice_store_def del: power_numeral)
qed

text \<open>
  Claim C10. A \<open>bool\<close> passes the \<open>isinstance\<close> check of line 51. The call with \<open>True\<close>
  is the call with the integer 1, and it never raises a \<open>TypeError\<close>, whatever the store
  does; the call with \<open>False\<close> raises the \<open>ValueError\<close> of line 56, as the integer 0
  does.
\<close>

theorem donate_bool_accepted:
  "donate_kbase_points db uname (PyBool True) s = donate_kbase_points db uname (PyInt 1) s \<and>
   fst (donate_kbase_points db uname (PyBool True) s) \<noteq> Inl (TypeError m) \<and>
   donate_kbase_points db uname (PyBool False) s =
     (Inl (ValueError ''Donation points must be a positive integer.''), 1, s)"
proof (intro conjI)
  have "donate_attempt db uname (PyBool True) = donate_attempt db uname (PyInt 1)"
    by (rule ext) (rule donate_attempt_bool)
  then show "donate_kbase_points db uname (PyBool True) s =
      donate_kbase_points db uname (PyInt 1) s"
    by (simp add: donate_kbase_points_def)
next
  show "fst (donate_kbase_points db uname (PyBool True) s) \<noteq> Inl (TypeError m)"
  proof
    assume a: "fst (donate_kbase_points db uname (PyBool True) s) = Inl (TypeError m)"
    obtain n s' where "donate_kbase_points db uname (PyBool True) s = (Inl (TypeError m), n, s')"
      using a by (cases "donate_kbase_points db uname (PyBool True) s") auto
    then obtain s0 where "donate_attempt db uname (PyBool True) s0 = (Inl (TypeError m), s')"
      unfolding donate_kbase_points_def by (auto dest: retry_Inl_cases)
    then show False
      using donate_attempt_not_TypeError [of "PyBool True" 1 db uname s0 m s'] by simp
  qed
next
  show "donate_kbase_points db uname (PyBool False) s =
      (Inl (ValueError ''Donation points must be a positive integer.''), 1, s)"
    unfolding donate_kbase_points_def
    by (rule retry_raises) (simp_all add: donate_attempt_not_positive str_raises_zero)
qed

theorem donate_bool_accepted_witness:
  "donate_kbase_points memory_db ''alice'' (PyBool True) (alice_store 100 []) =
     (Inr (Some \<lparr>username = ''alice'', remaining_kbase_points = 99, update_id = 7\<rparr>), 1,
      (alice_store 100 [])
        \<lparr>accounts := [''alice'' \<mapsto> \<lparr>user_name = ''alice'', kbase_points = 99\<rparr>],
         next_id := 8,
         calls := [Call_transaction, Call_get_user ''alice'' 2,
                   Call_save_user \<lparr>user_name = ''alice'', kbase_points = 99\<rparr>,
                   Call_exit None]\<rparr>) \<and>
   donate_kbase_points memory_db ''alice'' (PyBool False) (alice_store 100 []) =
     (Inl (ValueError ''Donation points must be a positive integer.''), 1,
      alice_store 100 [])"
proof -
  let ?s = "alice_store 100 []"
  have "donate_attempt memory_db ''alice'' (PyInt 1) ?s =
      (Inr (Some \<lparr>username = ''alice'', remaining_kbase_points = 99, update_id = 7\<rparr>),
       ?s\<lparr>accounts := [''alice'' \<mapsto> \<lparr>user_name = ''alice'', kbase_points = 99\<rparr>],
          next_id := 8,
          calls := [Call_transaction, Call_get_user ''alice'' 2,
                    Call_save_user \<lparr>user_name = ''alice'', kbase_points = 99\<rparr>,
                    Call_exit None]\<rparr>)"
    by (simp add: donate_attempt_def with_transaction_def transaction_block_def Let_def
        memory_defs)
  then have "donate_kbase_points memory_db ''alice'' (PyInt 1) ?s =
      (Inr (Some \<lparr>username = ''alice'', remaining_kbase_points = 99, update_id = 7\<rparr>), 1,
       ?s\<lparr>accounts := [''alice'' \<mapsto> \<lparr>user_name = ''alice'', kbase_points = 99\<rparr>],
          next_id := 8,
          calls := [Call_transaction, Call_get_user ''alice'' 2,
                    Call_save_user \<lparr>user_name = ''alice'', kbase_points = 99\<rparr>,
                    Call_exit None]\<rparr>)"
    by (rule donate_first_attempt_returns)
  with donate_bool_accepted [of memory_db "''alice''" ?s] show ?thesis by simp
qed

section \<open>Failures that are not retried\<close>

text \<open>
  Claim C5. With valid points, in a transaction that the store opens, when \<open>get_user\<close>
  returns \<open>None\<close> and the exit of the transaction lets the exception through, the call
  raises \<open>NoSuchUserError\<close> for that username on its first attempt. The store is left
  in the state that \<open>transaction\<close>, \<open>get_user\<close> and the exit produce: the outcome is the
  same whatever \<open>save_user\<close> is, so no save is made. On the reference store, for a
  username it has no account of, the calls received are the opening of the transaction,
  the fetch and the exit, and the accounts are as they were.
\<close>

theorem donate_no_such_user:
  assumes "as_int v = Some pts" and "0 < pts"
    and "transaction db s = (Inr (), s1)"
    and "get_user db uname 2 s1 = (Inr None, s2)"
    and "transaction_exit db (Some (NoSuchUserError uname)) s2 = (Inr False, s3)"
  shows "donate_kbase_points (db\<lparr>save_user := sv\<rparr>) uname v s =
           (Inl (NoSuchUserError uname), 1, s3) \<and>
         (accounts st uname = None \<and> pending st = [] \<longrightarrow>
            donate_kbase_points memory_db uname v st =
              (Inl (NoSuchUserError uname), 1,
               st\<lparr>snapshot := None,
                  calls := calls st @
                    [Call_transaction, Call_get_user uname 2,
                     Call_exit (Some (NoSuchUserError uname))]\<rparr>))"
proof (intro conjI impI)
  let ?db = "db\<lparr>save_user := sv\<rparr>"
  have "transaction_block ?db uname pts s1 = (Inl (NoSuchUserError uname), s2)"
    using assms(4) by (simp add: transaction_block_def)
  then have "with_transaction ?db (transaction_block ?db uname pts) s =
      (Inl (NoSuchUserError uname), s3)"
    using assms(3,5) by (intro with_transaction_raises [where ?s1.0 = s1 and ?s2.0 = s2]) simp_all
  then have "donate_attempt ?db uname v s = (Inl (NoSuchUserError uname), s3)"
    using assms(1,2) by (simp add: donate_attempt_valid)
  then show "donate_kbase_points ?db uname v s = (Inl (NoSuchUserError uname), 1, s3)"
    unfolding donate_kbase_points_def by (rule retry_raises) simp
next
  assume "accounts st uname = None \<and> pending st = []"
  with assms(1,2) show "donate_kbase_points memory_db uname v st =
      (Inl (NoSuchUserError uname), 1,
       st\<lparr>snapshot := None,
          calls := calls st @
            [Call_transaction, Call_get_user uname 2,
             Call_exit (Some (NoSuchUserError uname))]\<rparr>)"
    by (intro memory_donate_no_such_user) simp_all
qed

theorem donate_no_such_user_witness:
  "accounts (alice_store 100 []) ''bob'' = None \<and>
   donate_kbase_points memory_db ''bob'' (PyInt 30) (alice_store 100 []) =
     (Inl (NoSuchUserError ''bob''), 1,
      (alice_store 100 [])\<lparr>calls :=
         [Call_transaction, Call_get_user ''bob'' 2,
          Call_exit (Some (NoSuchUserError ''bob''))]\<rparr>)"
  using donate_no_such_user [of "PyInt 30" 30 memory_db "alice_store 100 []"
      "snd (memory_transaction (alice_store 100 []))" "''bob''"
      "snd (memory_get_user ''bob'' 2 (snd (memory_transaction (alice_store 100 []))))"
      "snd (memory_exit (Some (NoSuchUserError ''bob''))
         (snd (memory_get_user ''bob'' 2 (snd (memory_transaction (alice_store 100 []))))))"
      memory_save_user, where st = "alice_store 100 []"]
  by (simp add: memory_db_def memory_transaction_def memory_get_user_def memory_exit_def
      alice_store_def)




section \<open>A donation that succeeds\<close>

text \<open>
  Claim C2. With positive points, in a transaction that the store opens and closes
  without raising, when \<open>get_user\<close> returns an account with at least that many
  \<open>kbase_points\<close>, the account is handed to \<open>save_user\<close> with its \<open>kbase_points\<close> lowered
  by exactly the points, and the call returns, on its first attempt, the username, that
  new balance as \<open>remaining_kbase_points\<close>, and as \<open>update_id\<close> the identifier that
  \<open>save_user\<close> returned. On the reference store the account stored afterwards is the
  account with the lowered balance. With 100 points in the account and 30 donated, 70
  remain.
\<close>

theorem donate_success:
  assumes "as_int v = Some pts" and "0 < pts"
    and "transaction db s = (Inr (), s1)"
    and "get_user db uname 2 s1 = (Inr (Some usr), s2)"
    and "pts \<le> kbase_points usr"
    and "save_user db (usr\<lparr>kbase_points := kbase_points usr - pts\<rparr>) s2 = (Inr uid, s3)"
    and "transaction_exit db None s3 = (Inr b, s4)"
  shows "donate_kbase_points db uname v s =
           (Inr (Some \<lparr>username = uname,
                       remaining_kbase_points = kbase_points usr - pts,
                       update_id = uid\<rparr>), 1, s4) \<and>
         (accounts st uname = Some usr \<and> pending st = [] \<longrightarrow>
            donate_kbase_points memory_db uname v st =
              (Inr (Some \<lparr>username = uname,
                          remaining_kbase_points = kbase_points usr - pts,
                          update_id = next_id st\<rparr>), 1,
               st\<lparr>accounts :=
                    (accounts st)
                      (user_name usr \<mapsto> usr\<lparr>kbase_points := kbase_points usr - pts\<rparr>),
                  snapshot := None,
                  next_id := next_id st + 1,
                  calls := calls st @
                    [Call_transaction, Call_get_user uname 2,
                     Call_save_user (usr\<lparr>kbase_points := kbase_points usr - pts\<rparr>),
                     Call_exit None]\<rparr>))"
proof (intro conjI impI)
  show "donate_kbase_points db uname v s =
      (Inr (Some \<lparr>username = uname, remaining_kbase_points = kbase_points usr - pts,
                  update_id = uid\<rparr>), 1, s4)"
    using assms by (intro donate_first_attempt_returns donate_attempt_returns)
next
  assume "accounts st uname = Some usr \<and> pending st = []"
  with assms(1,2,5) show "donate_kbase_points memory_db uname v st =
      (Inr (Some \<lparr>username = uname, remaining_kbase_points = kbase_points usr - pts,
                  update_id = next_id st\<rparr>), 1,
       st\<lparr>accounts :=
            (accounts st)
              (user_name usr \<mapsto> usr\<lparr>kbase_points := kbase_points usr - pts\<rparr>),
          snapshot := None,
          next_id := next_id st + 1,
          calls := calls st @
            [Call_transaction, Call_get_user uname 2,
             Call_save_user (usr\<lparr>kbase_points := kbase_points usr - pts\<rparr>),
             Call_exit None]\<rparr>)"
    by (intro memory_donate_returns) simp_all
qed

theorem donate_success_witness:
  "donate_kbase_points memory_db ''alice'' (PyInt 30) (alice_store 100 []) =
     (Inr (Some \<lparr>username = ''alice'', remaining_kbase_points = 70, update_id = 7\<rparr>), 1,
      (alice_store 100 [])
        \<lparr>accounts := [''alice'' \<mapsto> \<lparr>user_name = ''alice'', kbase_points = 70\<rparr>],
         next_id := 8,
         calls := [Call_transaction, Call_get_user ''alice'' 2,
                   Call_save_user \<lparr>user_name = ''alice'', kbase_points = 70\<rparr>,
                   Call_exit None]\<rparr>)"
  using donate_success [of "PyInt 30" 30 memory_db "alice_store 100 []"
      "snd (memory_transaction (alice_store 100 []))" "''alice''"
      "\<lparr>user_name = ''alice'', kbase_points = 100\<rparr>"
      "snd (memory_get_user ''alice'' 2 (snd (memory_transaction (alice_store 100 []))))"
      7
      "snd (memory_save_user \<lparr>user_name = ''alice'', kbase_points = 70\<rparr>
         (snd (memory_get_user ''alice'' 2 (snd (memory_transaction (alice_store 100 []))))))"
      False
      "snd (memory_exit None (snd (memory_save_user \<lparr>user_name = ''alice'', kbase_points = 70\<rparr>
         (snd (memory_get_user ''alice'' 2 (snd (memory_transaction (alice_store 100 []))))))))",
      where st = "alice_store 100 []"]
  by (simp add: memory_db_def memory_transaction_def memory_get_user_def memory_exit_def
      memory_save_user_def alice_store_def)

text \<open>
  Claim C7. Whenever the call returns a donation, after any number of attempts and
  whatever the store is, the remaining balance it reports is not negative, and the state
  the store is left in is the one that the exit of the transaction produces right after
  the save of the account with that balance, under the update identifier the donation
  carries. When the account holds exactly the points, in a transaction that the store
  opens and closes without raising, the call returns with a remaining balance of 0. On
  the reference store, in any state and with any failures pending: after a returned
  donation the balance stored for the account is the remaining balance reported, which
  is not negative; balances that are all non-negative before a call are all non-negative
  after it, whatever its outcome; and a donation of exactly the balance returns and
  leaves a stored balance of 0.
\<close>

theorem donate_balance_never_negative:
  "(donate_kbase_points db uname v s = (Inr (Some r), n, s') \<longrightarrow>
      0 \<le> remaining_kbase_points r \<and>
      (\<exists>t t1 usr t2 t3 b.
         transaction db t = (Inr (), t1) \<and>
         get_user db uname 2 t1 = (Inr (Some usr), t2) \<and>
         save_user db (usr\<lparr>kbase_points := remaining_kbase_points r\<rparr>) t2 =
           (Inr (update_id r), t3) \<and>
         transaction_exit db None t3 = (Inr b, s'))) \<and>
   (as_int v = Some pts \<and> 0 < pts \<and>
    transaction db s = (Inr (), s1) \<and>
    get_user db uname 2 s1 = (Inr (Some usr0), s2) \<and>
    kbase_points usr0 = pts \<and>
    save_user db (usr0\<lparr>kbase_points := 0\<rparr>) s2 = (Inr uid0, s3) \<and>
    transaction_exit db None s3 = (Inr b0, s4) \<longrightarrow>
      donate_kbase_points db uname v s =
        (Inr (Some \<lparr>username = uname, remaining_kbase_points = 0, update_id = uid0\<rparr>),
         1, s4)) \<and>
   (donate_kbase_points memory_db uname v st = (Inr (Some d), k, st') \<and>
    accounts st uname = Some acct \<and> user_name acct = uname \<longrightarrow>
      0 \<le> remaining_kbase_points d \<and>
      accounts st' uname = Some (acct\<lparr>kbase_points := remaining_kbase_points d\<rparr>)) \<and>
   ((\<forall>u a. accounts st u = Some a \<longrightarrow> 0 \<le> kbase_points a) \<longrightarrow>
      (\<forall>u a. accounts (snd (snd (donate_kbase_points memory_db uname v st))) u = Some a \<longrightarrow>
         0 \<le> kbase_points a)) \<and>
   (as_int v = Some pts \<and> 0 < pts \<and> pending st = [] \<and>
    accounts st uname = Some acct \<and> user_name acct = uname \<and> kbase_points acct = pts \<longrightarrow>
      fst (donate_kbase_points memory_db uname v st) =
        Inr (Some \<lparr>username = uname, remaining_kbase_points = 0, update_id = next_id st\<rparr>) \<and>
      accounts (snd (snd (donate_kbase_points memory_db uname v st))) uname =
        Some (acct\<lparr>kbase_points := 0\<rparr>))"
proof (intro conjI)
  show "donate_kbase_points db uname v s = (Inr (Some r), n, s') \<longrightarrow>
      0 \<le> remaining_kbase_points r \<and>
      (\<exists>t t1 usr t2 t3 b.
         transaction db t = (Inr (), t1) \<and>
         get_user db uname 2 t1 = (Inr (Some usr), t2) \<and>
         save_user db (usr\<lparr>kbase_points := remaining_kbase_points r\<rparr>) t2 =
           (Inr (update_id r), t3) \<and>
         transaction_exit db None t3 = (Inr b, s'))"
  proof
    assume "donate_kbase_points db uname v s = (Inr (Some r), n, s')"
    then obtain t where "donate_attempt db uname v t = (Inr (Some r), s')"
      unfolding donate_kbase_points_def by (auto dest: retry_Inr_from_attempt)
    from donate_attempt_returns_cases [OF this]
    obtain p t1 usr t2 uid t3 b where tr: "transaction db t = (Inr (), t1)"
      and g: "get_user db uname 2 t1 = (Inr (Some usr), t2)"
      and le: "p \<le> kbase_points usr"
      and sv: "save_user db (usr\<lparr>kbase_points := kbase_points usr - p\<rparr>) t2 = (Inr uid, t3)"
      and ex: "transaction_exit db None t3 = (Inr b, s')"
      and r: "r = \<lparr>username = uname, remaining_kbase_points = kbase_points usr - p,
                  update_id = uid\<rparr>"
      by blast
    from le r have "0 \<le> remaining_kbase_points r" by simp
    moreover from sv r have "save_user db (usr\<lparr>kbase_points := remaining_kbase_points r\<rparr>) t2 =
        (Inr (update_id r), t3)"
      by simp
    ultimately show "0 \<le> remaining_kbase_points r \<and>
      (\<exists>t t1 usr t2 t3 b.
         transaction db t = (Inr (), t1) \<and>
         get_user db uname 2 t1 = (Inr (Some usr), t2) \<and>
         save_user db (usr\<lparr>kbase_points := remaining_kbase_points r\<rparr>) t2 =
           (Inr (update_id r), t3) \<and>
         transaction_exit db None t3 = (Inr b, s'))"
      using tr g ex by blast
  qed
next
  show "as_int v = Some pts \<and> 0 < pts \<and>
    transaction db s = (Inr (), s1) \<and>
    get_user db uname 2 s1 = (Inr (Some usr0), s2) \<and>
    kbase_points usr0 = pts \<and>
    save_user db (usr0\<lparr>kbase_points := 0\<rparr>) s2 = (Inr uid0, s3) \<and>
    transaction_exit db None s3 = (Inr b0, s4) \<longrightarrow>
      donate_kbase_points db uname v s =
        (Inr (Some \<lparr>username = uname, remaining_kbase_points = 0, update_id = uid0\<rparr>),
         1, s4)"
  proof
    assume a: "as_int v = Some pts \<and> 0 < pts \<and>
      transaction db s = (Inr (), s1) \<and>
      get_user db uname 2 s1 = (Inr (Some usr0), s2) \<and>
      kbase_points usr0 = pts \<and>
      save_user db (usr0\<lparr>kbase_points := 0\<rparr>) s2 = (Inr uid0, s3) \<and>
      transaction_exit db None s3 = (Inr b0, s4)"
    then have "donate_attempt db uname v s =
        (Inr (Some \<lparr>username = uname, remaining_kbase_points = kbase_points usr0 - pts,
                    update_id = uid0\<rparr>), s4)"
      by (intro donate_attempt_returns [where ?s1.0 = s1 and ?s2.0 = s2 and ?s3.0 = s3
            and b = b0]) simp_all
    with a have "donate_attempt db uname v s =
        (Inr (Some \<lparr>username = uname, remaining_kbase_points = 0, update_id = uid0\<rparr>), s4)"
      by simp
    then show "donate_kbase_points db uname v s =
        (Inr (Some \<lparr>username = uname, remaining_kbase_points = 0, update_id = uid0\<rparr>), 1, s4)"
      by (rule donate_first_attempt_returns)
  qed
next
  show "donate_kbase_points memory_db uname v st = (Inr (Some d), k, st') \<and>
    accounts st uname = Some acct \<and> user_name acct = uname \<longrightarrow>
      0 \<le> remaining_kbase_points d \<and>
      accounts st' uname = Some (acct\<lparr>kbase_points := remaining_kbase_points d\<rparr>)"
    using memory_donate_returns_stored [of uname v st d k st' acct] by blast
next
  show "(\<forall>u a. accounts st u = Some a \<longrightarrow> 0 \<le> kbase_points a) \<longrightarrow>
      (\<forall>u a. accounts (snd (snd (donate_kbase_points memory_db uname v st))) u = Some a \<longrightarrow>
         0 \<le> kbase_points a)"
    using memory_donate_nonnegative [of st uname v] by blast
next
  show "as_int v = Some pts \<and> 0 < pts \<and> pending st = [] \<and>
    accounts st uname = Some acct \<and> user_name acct = uname \<and> kbase_points acct = pts \<longrightarrow>
      fst (donate_kbase_points memory_db uname v st) =
        Inr (Some \<lparr>username = uname, remaining_kbase_points = 0, update_id = next_id st\<rparr>) \<and>
      accounts (snd (snd (donate_kbase_points memory_db uname v st))) uname =
        Some (acct\<lparr>kbase_points := 0\<rparr>)"
  proof
    assume a: "as_int v = Some pts \<and> 0 < pts \<and> pending st = [] \<and>
      accounts st uname = Some acct \<and> user_name acct = uname \<and> kbase_points acct = pts"
    then have "donate_kbase_points memory_db uname v st =
        (Inr (Some \<lparr>username = uname, remaining_kbase_points = kbase_points acct - pts,
                    update_id = next_id st\<rparr>), 1,
         st\<lparr>accounts :=
              (accounts st)
                (user_name acct \<mapsto> acct\<lparr>kbase_points := kbase_points acct - pts\<rparr>),
            snapshot := None,
            next_id := next_id st + 1,
            calls := calls st @
              [Call_transaction, Call_get_user uname 2,
               Call_save_user (acct\<lparr>kbase_points := kbase_points acct - pts\<rparr>),
               Call_exit None]\<rparr>)"
      by (intro memory_donate_returns) simp_all
    with a show "fst (donate_kbase_points memory_db uname v st) =
        Inr (Some \<lparr>username = uname, remaining_kbase_points = 0, update_id = next_id st\<rparr>) \<and>
      accounts (snd (snd (donate_kbase_points memory_db uname v st))) uname =
        Some (acct\<lparr>kbase_points := 0\<rparr>)"
      by simp
  qed
qed

theorem donate_balance_never_negative_witness:
  "donate_kbase_points memory_db ''alice'' (PyInt 30) (alice_store 30 []) =
     (Inr (Some \<lparr>username = ''alice'', remaining_kbase_points = 0, update_id = 7\<rparr>), 1,
      (alice_store 30 [])
        \<lparr>accounts := [''alice'' \<mapsto> \<lparr>user_name = ''alice'', kbase_points = 0\<rparr>],
         next_id := 8,
         calls := [Call_transaction, Call_get_user ''alice'' 2,
                   Call_save_user \<lparr>user_name = ''alice'', kbase_points = 0\<rparr>,
                   Call_exit None]\<rparr>) \<and>
   accounts (snd (snd (donate_kbase_points memory_db ''alice'' (PyInt 30)
      (alice_store 30 [])))) ''alice'' =
     Some \<lparr>user_name = ''alice'', kbase_points = 0\<rparr> \<and>
   (0::int) \<le> kbase_points \<lparr>user_name = ''alice'', kbase_points = 0\<rparr>"
proof -
  let ?s = "alice_store 30 []"
  let ?s1 = "snd (memory_transaction ?s)"
  let ?s2 = "snd (memory_get_user ''alice'' 2 ?s1)"
  let ?s3 = "snd (memory_save_user \<lparr>user_name = ''alice'', kbase_points = 0\<rparr> ?s2)"
  let ?s4 = "snd (memory_exit None ?s3)"
  let ?r = "\<lparr>username = ''alice'', remaining_kbase_points = 0, update_id = 7 :: nat\<rparr>"
  show ?thesis
    using donate_balance_never_negative [where db = memory_db and uname = "''alice''"
        and v = "PyInt 30" and s = ?s and r = ?r and n = 1 and s' = ?s4 and pts = 30
        and ?s1.0 = ?s1 and ?usr0.0 = "\<lparr>user_name = ''alice'', kbase_points = 30\<rparr>"
        and ?s2.0 = ?s2 and ?uid0.0 = 7 and ?s3.0 = ?s3 and ?b0.0 = False and ?s4.0 = ?s4
        and st = ?s and d = ?r and k = 1 and st' = ?s4
        and acct = "\<lparr>user_name = ''alice'', kbase_points = 30\<rparr>"]
    by (simp add: memory_defs)
qed

text \<open>
  Claim C9. Two calls in a row with the same username and the same points, against a
  store that returns at the second fetch the account it was given at the first save,
  with a balance of at least twice the points: both calls return on their first attempt,
  the first reports the balance lowered by the points, the second the balance lowered
  by twice the points, each with the update identifier of a save of its own. On the
  reference store the balance stored after the two calls is the balance lowered by twice
  the points. Nothing in the code compares a call with an earlier one.
\<close>

theorem donate_twice_decrements_twice:
  assumes "as_int v = Some pts" and "0 < pts" and "2 * pts \<le> kbase_points usr"
    and "transaction db s = (Inr (), s1)"
    and "get_user db uname 2 s1 = (Inr (Some usr), s2)"
    and "save_user db (usr\<lparr>kbase_points := kbase_points usr - pts\<rparr>) s2 = (Inr uid1, s3)"
    and "transaction_exit db None s3 = (Inr b1, s4)"
    and "transaction db s4 = (Inr (), s5)"
    and "get_user db uname 2 s5 =
           (Inr (Some (usr\<lparr>kbase_points := kbase_points usr - pts\<rparr>)), s6)"
    and "save_user db (usr\<lparr>kbase_points := kbase_points usr - 2 * pts\<rparr>) s6 =
           (Inr uid2, s7)"
    and "transaction_exit db None s7 = (Inr b2, s8)"
  shows "donate_kbase_points db uname v s =
           (Inr (Some \<lparr>username = uname,
                       remaining_kbase_points = kbase_points usr - pts,
                       update_id = uid1\<rparr>), 1, s4) \<and>
         donate_kbase_points db uname v s4 =
           (Inr (Some \<lparr>username = uname,
                       remaining_kbase_points = kbase_points usr - 2 * pts,
                       update_id = uid2\<rparr>), 1, s8) \<and>
         (accounts st uname = Some usr \<and> user_name usr = uname \<and> pending st = [] \<longrightarrow>
            accounts (snd (snd (donate_kbase_points memory_db uname v
                (snd (snd (donate_kbase_points memory_db uname v st)))))) uname =
              Some (usr\<lparr>kbase_points := kbase_points usr - 2 * pts\<rparr>))"
proof (intro conjI impI)
  from assms(2,3) have le1: "pts \<le> kbase_points usr" by simp
  show "donate_kbase_points db uname v s =
      (Inr (Some \<lparr>username = uname, remaining_kbase_points = kbase_points usr - pts,
                  update_id = uid1\<rparr>), 1, s4)"
    using assms(1,2,4,5) le1 assms(6,7)
    by (intro donate_first_attempt_returns donate_attempt_returns)
next
  let ?usr = "usr\<lparr>kbase_points := kbase_points usr - pts\<rparr>"
  from assms(3) have le2: "pts \<le> kbase_points ?usr" by simp
  have sv: "save_user db (?usr\<lparr>kbase_points := kbase_points ?usr - pts\<rparr>) s6 = (Inr uid2, s7)"
    using assms(10) by (simp add: algebra_simps)
  have "donate_kbase_points db uname v s4 =
      (Inr (Some \<lparr>username = uname, remaining_kbase_points = kbase_points ?usr - pts,
                  update_id = uid2\<rparr>), 1, s8)"
    using assms(1,2,8,9) le2 sv assms(11)
    by (intro donate_first_attempt_returns donate_attempt_returns)
  then show "donate_kbase_points db uname v s4 =
      (Inr (Some \<lparr>username = uname, remaining_kbase_points = kbase_points usr - 2 * pts,
                  update_id = uid2\<rparr>), 1, s8)"
    by (simp add: algebra_simps)
next
  assume "accounts st uname = Some usr \<and> user_name usr = uname \<and> pending st = []"
  with assms(1,2,3) show "accounts (snd (snd (donate_kbase_points memory_db uname v
      (snd (snd (donate_kbase_points memory_db uname v st)))))) uname =
      Some (usr\<lparr>kbase_points := kbase_points usr - 2 * pts\<rparr>)"
    by (intro memory_donate_twice) simp_all
qed

theorem donate_twice_decrements_twice_witness:
  "donate_kbase_points memory_db ''alice'' (PyInt 30) (alice_store 100 []) =
     (Inr (Some \<lparr>username = ''alice'', remaining_kbase_points = 70, update_id = 7\<rparr>), 1,
      (alice_store 100 [])
        \<lparr>accounts := [''alice'' \<mapsto> \<lparr>user_name = ''alice'', kbase_points = 70\<rparr>],
         next_id := 8,
         calls := [Call_transaction, Call_get_user ''alice'' 2,
                   Call_save_user \<lparr>user_name = ''alice'', kbase_points = 70\<rparr>,
                   Call_exit None]\<rparr>) \<and>
   donate_kbase_points memory_db ''alice'' (PyInt 30)
      ((alice_store 100 [])
        \<lparr>accounts := [''alice'' \<mapsto> \<lparr>user_name = ''alice'', kbase_points = 70\<rparr>],
         next_id := 8,
         calls := [Call_transaction, Call_get_user ''alice'' 2,
                   Call_save_user \<lparr>user_name = ''alice'', kbase_points = 70\<rparr>,
                   Call_exit None]\<rparr>) =
     (Inr (Some \<lparr>username = ''alice'', remaining_kbase_points = 40, update_id = 8\<rparr>), 1,
      (alice_store 100 [])
        \<lparr>accounts := [''alice'' \<mapsto> \<lparr>user_name = ''alice'', kbase_points = 40\<rparr>],
         next_id := 9,
         calls := [Call_transaction, Call_get_user ''alice'' 2,
                   Call_save_user \<lparr>user_name = ''alice'', kbase_points = 70\<rparr>,
                   Call_exit None,
                   Call_transaction, Call_get_user ''alice'' 2,
                   Call_save_user \<lparr>user_name = ''alice'', kbase_points = 40\<rparr>,
                   Call_exit None]\<rparr>) \<and>
   accounts (snd (snd (donate_kbase_points memory_db ''alice'' (PyInt 30)
       (snd (snd (donate_kbase_points memory_db ''alice'' (PyInt 30)
          (alice_store 100 []))))))) ''alice'' =
     Some \<lparr>user_name = ''alice'', kbase_points = 40\<rparr>"
proof -
  let ?u = "\<lambda>b. \<lparr>user_name = ''alice'', kbase_points = b\<rparr>"
  let ?s = "alice_store 100 []"
  let ?s1 = "snd (memory_transaction ?s)"
  let ?s2 = "snd (memory_get_user ''alice'' 2 ?s1)"
  let ?s3 = "snd (memory_save_user (?u 70) ?s2)"
  let ?s4 = "snd (memory_exit None ?s3)"
  let ?s5 = "snd (memory_transaction ?s4)"
  let ?s6 = "snd (memory_get_user ''alice'' 2 ?s5)"
  let ?s7 = "snd (memory_save_user (?u 40) ?s6)"
  let ?s8 = "snd (memory_exit None ?s7)"
  show ?thesis
    using donate_twice_decrements_twice [of "PyInt 30" 30 "?u 100" memory_db ?s ?s1
        "''alice''" ?s2 7 ?s3 False ?s4 ?s5 ?s6 8 ?s7 False ?s8, where st = ?s]
    by (simp add: memory_defs)
qed

section \<open>Retries\<close>

text \<open>
  Claim C8. With valid points, when the \<open>with\<close> statement of the first attempt raises
  a store timeout, that of the second attempt raises one again, and the third attempt
  returns, the call returns what the third attempt returned, after 3 attempts, and that
  is what a call returns that starts where the third attempt started and succeeds at
  once. No call makes more than 3 attempts. On the reference store, a call whose first
  two fetches time out returns, after 3 attempts, what the call returns on the same
  store with no timeout pending.
\<close>

theorem donate_two_timeouts_then_success:
  assumes "as_int v = Some pts" and "0 < pts"
    and "with_transaction db (transaction_block db uname pts) s0 =
           (Inl FutureTimeoutError, s1)"
    and "with_transaction db (transaction_block db uname pts) s1 =
           (Inl FutureTimeoutError, s2)"
    and "donate_attempt db uname v s2 = (Inr r, s3)"
  shows "donate_kbase_points db uname v s0 = (Inr r, 3, s3) \<and>
         donate_kbase_points db uname v s2 = (Inr r, 1, s3) \<and>
         fst (snd (donate_kbase_points db uname v t)) \<le> 3 \<and>
         (accounts st uname = Some usr \<and> pts \<le> kbase_points usr \<and>
          pending st = [FutureTimeoutError, FutureTimeoutError] \<longrightarrow>
            fst (donate_kbase_points memory_db uname v st) =
              fst (donate_kbase_points memory_db uname v (st\<lparr>pending := []\<rparr>)) \<and>
            fst (snd (donate_kbase_points memory_db uname v st)) = 3)"
proof (intro conjI impI)
  let ?fn = "donate_attempt db uname v"
  let ?e = "DatabaseOperationError ''Failed to process donation after retries.''
      (Some FutureTimeoutError)"
  have a1: "?fn s0 = (Inl ?e, s1)"
    using assms(1,2,3) by (intro donate_attempt_wraps) simp_all
  have a2: "?fn s1 = (Inl ?e, s2)"
    using assms(1,2,4) by (intro donate_attempt_wraps) simp_all
  show "donate_kbase_points db uname v s0 = (Inr r, 3, s3)"
    using a1 _ a2 _ assms(5) by (rule donate_third_attempt_returns) simp_all
next
  show "donate_kbase_points db uname v s2 = (Inr r, 1, s3)"
    using assms(5) by (rule donate_first_attempt_returns)
next
  obtain out n t' where d: "donate_kbase_points db uname v t = (out, n, t')"
    by (cases "donate_kbase_points db uname v t")
  then have "n \<le> max 1 3"
    unfolding donate_kbase_points_def by (auto dest: retry_attempt_bounds)
  with d show "fst (snd (donate_kbase_points db uname v t)) \<le> 3" by simp
next
  assume a: "accounts st uname = Some usr \<and> pts \<le> kbase_points usr \<and>
    pending st = [FutureTimeoutError, FutureTimeoutError]"
  with assms(1,2) show "fst (donate_kbase_points memory_db uname v st) =
      fst (donate_kbase_points memory_db uname v (st\<lparr>pending := []\<rparr>))"
    using memory_donate_two_timeouts [of v pts st uname usr] by simp
  from a assms(1,2) show "fst (snd (donate_kbase_points memory_db uname v st)) = 3"
    using memory_donate_two_timeouts [of v pts st uname usr] by simp
qed

theorem donate_two_timeouts_then_success_witness:
  "donate_kbase_points memory_db ''alice'' (PyInt 30)
      (alice_store 100 [FutureTimeoutError, FutureTimeoutError]) =
     (Inr (Some \<lparr>username = ''alice'', remaining_kbase_points = 70, update_id = 7\<rparr>), 3,
      (alice_store 100 [])
        \<lparr>accounts := [''alice'' \<mapsto> \<lparr>user_name = ''alice'', kbase_points = 70\<rparr>],
         next_id := 8,
         calls := [Call_transaction, Call_get_user ''alice'' 2,
                   Call_exit (Some FutureTimeoutError),
                   Call_transaction, Call_get_user ''alice'' 2,
                   Call_exit (Some FutureTimeoutError),
                   Call_transaction, Call_get_user ''alice'' 2,
                   Call_save_user \<lparr>user_name = ''alice'', kbase_points = 70\<rparr>,
                   Call_exit None]\<rparr>) \<and>
   fst (donate_kbase_points memory_db ''alice'' (PyInt 30) (alice_store 100 [])) =
     Inr (Some \<lparr>username = ''alice'', remaining_kbase_points = 70, update_id = 7\<rparr>)"
proof -
  let ?s0 = "alice_store 100 [FutureTimeoutError, FutureTimeoutError]"
  let ?blk = "transaction_block memory_db ''alice'' 30"
  let ?s1 = "snd (with_transaction memory_db ?blk ?s0)"
  let ?s2 = "snd (with_transaction memory_db ?blk ?s1)"
  let ?s3 = "snd (donate_attempt memory_db ''alice'' (PyInt 30) ?s2)"
  let ?r = "Some \<lparr>username = ''alice'', remaining_kbase_points = 70, update_id = 7 :: nat\<rparr>"
  have "donate_attempt memory_db ''alice'' (PyInt 30) (alice_store 100 []) =
      (Inr ?r, snd (donate_attempt memory_db ''alice'' (PyInt 30) (alice_store 100 [])))"
    by (simp add: donate_attempt_def with_transaction_def transaction_block_def Let_def
        memory_defs)
  then have "fst (donate_kbase_points memory_db ''alice'' (PyInt 30) (alice_store 100 [])) =
      Inr ?r"
    by (simp add: donate_first_attempt_returns)
  then show ?thesis
    using donate_two_timeouts_then_success [of "PyInt 30" 30 memory_db "''alice''"
        ?s0 ?s1 ?s2 ?r ?s3 ?s0,
        where st = ?s0 and usr = "\<lparr>user_name = ''alice'', kbase_points = 100\<rparr>"]
    by (simp add: donate_attempt_def with_transaction_def transaction_block_def Let_def
        memory_defs)
qed

text \<open>
  Claim C1. With valid points, when the \<open>with\<close> statement raises a store timeout or
  another store error in three attempts in a row, each attempt raises
  \<open>DatabaseOperationError\<close> with the store's exception as its cause, and the decorator,
  which has no \<open>reraise\<close>, raises \<open>RetryError\<close> around the third of them after 3
  attempts. The caller receives that \<open>RetryError\<close>; no call, on any store and in any
  state, ends with \<open>DatabaseOperationError\<close> itself, which the docstring of the method
  lists for persistent database failures.
\<close>

theorem donate_three_failures_retry_error:
  assumes "as_int v = Some pts" and "0 < pts"
    and "with_transaction db (transaction_block db uname pts) s0 = (Inl e1, s1)"
    and "e1 = FutureTimeoutError \<or> (\<exists>m. e1 = StoreError m)"
    and "with_transaction db (transaction_block db uname pts) s1 = (Inl e2, s2)"
    and "e2 = FutureTimeoutError \<or> (\<exists>m. e2 = StoreError m)"
    and "with_transaction db (transaction_block db uname pts) s2 = (Inl e3, s3)"
    and "e3 = FutureTimeoutError \<or> (\<exists>m. e3 = StoreError m)"
  shows "donate_kbase_points db uname v s0 =
           (Inl (RetryError (DatabaseOperationError
              ''Failed to process donation after retries.'' (Some e3))), 3, s3) \<and>
         fst (donate_kbase_points db uname v t) \<noteq> Inl (DatabaseOperationError m c)"
proof (intro conjI)
  let ?fn = "donate_attempt db uname v"
  let ?w = "\<lambda>e. DatabaseOperationError ''Failed to process donation after retries.'' (Some e)"
  have a1: "?fn s0 = (Inl (?w e1), s1)"
    using assms(1,2,3,4) by (rule donate_attempt_wraps)
  have a2: "?fn s1 = (Inl (?w e2), s2)"
    using assms(1,2,5,6) by (rule donate_attempt_wraps)
  have a3: "?fn s2 = (Inl (?w e3), s3)"
    using assms(1,2,7,8) by (rule donate_attempt_wraps)
  have "retry 3 retry_if_exception_type ?fn 1 s0 =
      retry 3 retry_if_exception_type ?fn (Suc 1) s1"
    using a1 by (rule retry_again) simp_all
  also have "\<dots> = retry 3 retry_if_exception_type ?fn (Suc (Suc 1)) s2"
    using a2 by (rule retry_again) simp_all
  also have "\<dots> = (Inl (RetryError (?w e3)), Suc (Suc 1), s3)"
    using a3 by (rule retry_exhausted) simp_all
  finally show "donate_kbase_points db uname v s0 = (Inl (RetryError (?w e3)), 3, s3)"
    by (simp only: donate_kbase_points_def three_is_Suc)
next
  show "fst (donate_kbase_points db uname v t) \<noteq> Inl (DatabaseOperationError m c)"
  proof
    assume a: "fst (donate_kbase_points db uname v t) = Inl (DatabaseOperationError m c)"
    obtain n t' where
      "donate_kbase_points db uname v t = (Inl (DatabaseOperationError m c), n, t')"
      using a by (cases "donate_kbase_points db uname v t") auto
    then show False
      unfolding donate_kbase_points_def by (auto dest: retry_Inl_cases)
  qed
qed

theorem donate_three_failures_retry_error_witness:
  "donate_kbase_points memory_db ''alice'' (PyInt 30)
      (alice_store 100 [FutureTimeoutError, StoreError ''connection lost'',
         FutureTimeoutError]) =
     (Inl (RetryError (DatabaseOperationError
        ''Failed to process donation after retries.'' (Some FutureTimeoutError))), 3,
      (alice_store 100 [])
        \<lparr>calls := [Call_transaction, Call_get_user ''alice'' 2,
                   Call_exit (Some FutureTimeoutError),
                   Call_transaction, Call_get_user ''alice'' 2,
                   Call_exit (Some (StoreError ''connection lost'')),
                   Call_transaction, Call_get_user ''alice'' 2,
                   Call_exit (Some FutureTimeoutError)]\<rparr>)"
proof -
  let ?s0 = "alice_store 100 [FutureTimeoutError, StoreError ''connection lost'',
      FutureTimeoutError]"
  let ?blk = "transaction_block memory_db ''alice'' 30"
  let ?s1 = "snd (with_transaction memory_db ?blk ?s0)"
  let ?s2 = "snd (with_transaction memory_db ?blk ?s1)"
  let ?s3 = "snd (with_transaction memory_db ?blk ?s2)"
  show ?thesis
    using donate_three_failures_retry_error [of "PyInt 30" 30 memory_db "''alice''"
        ?s0 FutureTimeoutError ?s1 "StoreError ''connection lost''" ?s2
        FutureTimeoutError ?s3 ?s0 "''''" None]
    by (simp add: with_transaction_def transaction_block_def memory_defs)
qed

end
